theory Spec2Isabelle
  imports Complex_Main "HOL-Library.Multiset" "HOL-Library.Word"
begin

section \<open>JavaScript values used by the recommendation worker\<close>

text \<open>
  The worker (file \<^verbatim>\<open>tuijian suanfa.js\<close>, "recommendation algorithm", under the
  Cloudflare Workers service layer) is written in JavaScript with Chinese property names
  and string constants.  The theory is ASCII, so every property gets an English name
  (the pinyin of the source name is given where the record is declared) and every string
  constant is written as the list of its UTF-16 code units (16-bit words), which is what
  a JavaScript string is: \<open>===\<close> on strings is equality of these lists and \<open>includes\<close> is
  containment of one list in the other.

  Numbers.  A JavaScript number is a double.  The model keeps the kinds of value the code
  can produce (finite, the two infinities, NaN) and computes on finite values exactly,
  over the rationals: rounding error of the double arithmetic, overflow and the sign of
  zero are not modelled.  Numbers that come out of the JSON catalog are finite, so fields
  of a recipe hold a \<open>rat\<close>.

  Objects.  The catalog is taken to be typed: a property of a recipe either holds a value
  of the type the worker expects or is absent; an absent property reads as
  \<open>undefined\<close> and is \<open>None\<close>.  \<open>null\<close> and values of other types are outside
  the model.

  Ambient inputs.  The worker draws random numbers, reads the clock and sorts with the
  collation of the engine.  Each of them is an explicit parameter of the model: the
  outcome of every shuffle, the clock reading and the comparison of two names.
\<close>

type_synonym jsstring = "16 word list"

datatype jsnum = Fin rat | PInf | NInf | NaN

text \<open>The infinity with the sign of \<open>s\<close> (for \<open>s \<noteq> 0\<close>).\<close>

definition js_inf :: "rat \<Rightarrow> jsnum" where
  "js_inf s = (if 0 < s then PInf else NInf)"

fun js_sgn :: "jsnum \<Rightarrow> rat" where
  "js_sgn (Fin a) = sgn a"
| "js_sgn PInf = 1"
| "js_sgn NInf = - 1"
| "js_sgn NaN = 0"

text \<open>\<open>x * y\<close>: NaN is contagious, and infinity times zero is NaN.\<close>

fun js_mul :: "jsnum \<Rightarrow> jsnum \<Rightarrow> jsnum" where
  "js_mul NaN y = NaN"
| "js_mul x NaN = NaN"
| "js_mul (Fin a) (Fin b) = Fin (a * b)"
| "js_mul x y = (if js_sgn x * js_sgn y = 0 then NaN else js_inf (js_sgn x * js_sgn y))"

text \<open>
  \<open>x / y\<close>: a non-zero finite number over zero is an infinity, zero over zero and
  infinity over infinity are NaN, a finite number over an infinity is zero.
\<close>

fun js_div :: "jsnum \<Rightarrow> jsnum \<Rightarrow> jsnum" where
  "js_div NaN y = NaN"
| "js_div x NaN = NaN"
| "js_div (Fin a) (Fin b) = (if b = 0 then (if a = 0 then NaN else js_inf a) else Fin (a / b))"
| "js_div (Fin a) y = Fin 0"
| "js_div x (Fin b) = js_inf (js_sgn x * (if b < 0 then - 1 else 1))"
| "js_div x y = NaN"

text \<open>\<open>x + y\<close>: opposite infinities add up to NaN.\<close>

fun js_add :: "jsnum \<Rightarrow> jsnum \<Rightarrow> jsnum" where
  "js_add NaN y = NaN"
| "js_add x NaN = NaN"
| "js_add (Fin a) (Fin b) = Fin (a + b)"
| "js_add (Fin a) y = y"
| "js_add x (Fin b) = x"
| "js_add PInf PInf = PInf"
| "js_add NInf NInf = NInf"
| "js_add x y = NaN"

text \<open>
  \<open>Math.round\<close>: the nearest integer, a tie going up (towards \<open>+\<infinity>\<close>); the
  infinities and NaN are returned unchanged.
\<close>

fun js_round :: "jsnum \<Rightarrow> jsnum" where
  "js_round (Fin a) = Fin (of_int \<lfloor>a + 1 / 2\<rfloor>)"
| "js_round x = x"

text \<open>\<open>x < y\<close> and \<open>x > y\<close>: every comparison with NaN is false.\<close>

fun js_lt :: "jsnum \<Rightarrow> jsnum \<Rightarrow> bool" where
  "js_lt NaN y = False"
| "js_lt x NaN = False"
| "js_lt (Fin a) (Fin b) = (a < b)"
| "js_lt x NInf = False"
| "js_lt PInf y = False"
| "js_lt x y = True"

definition js_gt :: "jsnum \<Rightarrow> jsnum \<Rightarrow> bool" where
  "js_gt x y = js_lt y x"

text \<open>A numeric property read into arithmetic: \<open>undefined\<close> converts to NaN.\<close>

fun to_num :: "rat option \<Rightarrow> jsnum" where
  "to_num None = NaN"
| "to_num (Some a) = Fin a"

text \<open>\<open>v || 0\<close> on a numeric property: \<open>undefined\<close> (and \<open>0\<close>) give \<open>0\<close>.\<close>

fun or_zero :: "rat option \<Rightarrow> jsnum" where
  "or_zero None = Fin 0"
| "or_zero (Some a) = Fin a"

definition is_finite :: "jsnum \<Rightarrow> bool" where
  "is_finite x = (case x of Fin a \<Rightarrow> True | _ \<Rightarrow> False)"

section \<open>The data model\<close>

text \<open>
  An entry of the ingredient list \<open>shicai liebiao\<close>: name \<open>shicai mingcheng\<close>,
  quantity \<open>yongliang\<close>, unit \<open>danwei\<close>.
\<close>

record ingredient =
  ing_name :: jsstring
  quantity :: "rat option"
  ing_unit :: "jsstring option"

text \<open>
  An entry of \<open>tiaozheng hou shicai\<close> ("ingredients after adjustment"): the spread of
  the ingredient plus the scaled quantity \<open>tiaozheng yongliang\<close>.
\<close>

record scaled_ingredient = ingredient +
  adjusted_quantity :: jsnum

text \<open>
  An entry of the seasoning list \<open>tiaoweiliao\<close>, which the PDF exporter prints: name
  \<open>mingcheng\<close>, quantity \<open>yongliang\<close>, unit \<open>danwei\<close>.
\<close>

record seasoning =
  sea_name :: jsstring
  sea_quantity :: "rat option"
  sea_unit :: "jsstring option"

text \<open>
  \<open>biaozhun fenliang\<close> ("standard portion"): the base number of people
  \<open>jizhun renshu\<close>, the ingredient list and the seasoning list.
\<close>

record servings =
  base_people :: "rat option"
  ingredient_list :: "ingredient list option"
  seasonings :: "seasoning list option"

text \<open>
  \<open>yingyang chengfen\<close> ("nutrients"): calories \<open>reliang\<close>, protein \<open>danbaizhi\<close>,
  carbohydrate \<open>tanshui huahewu\<close>, fat \<open>zhifang\<close>, fibre \<open>xianweisu\<close>.
\<close>

record nutrients =
  calories :: "rat option"
  protein :: "rat option"
  carbohydrate :: "rat option"
  fat :: "rat option"
  fibre :: "rat option"

text \<open>
  A recipe: identifier \<open>caipin biaoshi\<close>, name \<open>caipin mingcheng\<close>, categories
  \<open>caipin fenlei\<close>, seasons \<open>shiyong jijie\<close>, difficulty \<open>nandu dengji\<close>,
  preparation time \<open>zhunbei shijian\<close>, cooking time \<open>pengren shijian\<close>, standard
  portion, nutrients, tags \<open>caipin biaoqian\<close>, and the property \<open>tiaozheng hou shicai\<close>
  that \<open>adjustServings\<close> adds to its copy of the recipe.
\<close>

record recipe =
  recipe_id :: jsstring
  dish_name :: jsstring
  categories :: "jsstring list option"
  seasons :: "jsstring list option"
  difficulty :: "jsstring option"
  prep_time :: "rat option"
  cook_time :: "rat option"
  standard_servings :: "servings option"
  nutrition :: "nutrients option"
  tags :: "jsstring list option"
  adjusted_ingredients :: "scaled_ingredient list option"

text \<open>
  The parameters \<open>handleRecommend\<close> builds from the query string: number of diners
  \<open>yongcan renshu\<close> (an integer, from \<open>parseInt\<close>), season \<open>jijie\<close>, taste
  preferences \<open>kouwei pianhao\<close>, special needs \<open>teshu xuqiu\<close>, cooking time limit
  \<open>pengren shijian\<close>, difficulty \<open>nandu dengji\<close>.
\<close>

record params =
  people :: int
  season :: jsstring
  taste :: "jsstring list"
  special_needs :: "jsstring list"
  max_cook_time :: "rat option"
  difficulty_level :: jsstring

text \<open>
  A menu is an object with property names in insertion order: an association list from
  category name to the recipes chosen for it.
\<close>

type_synonym menu = "(jsstring \<times> recipe list) list"

section \<open>Serving adjustment\<close>

text \<open>
  \<open>adjustServings\<close> (lines 534 to 556), the body of the inner \<open>map\<close> over the
  ingredient list:
  \<^verbatim>\<open>{...ingredient, tiaozheng_yongliang: Math.round(ingredient.yongliang * ratio * 10) / 10}\<close>.
\<close>

definition scale_ingredient :: "jsnum \<Rightarrow> ingredient \<Rightarrow> scaled_ingredient" where
  "scale_ingredient ratio ing =
     \<lparr>ing_name = ing_name ing, quantity = quantity ing, ing_unit = ing_unit ing,
      adjusted_quantity =
        js_div (js_round (js_mul (js_mul (to_num (quantity ing)) ratio) (Fin 10))) (Fin 10)\<rparr>"

text \<open>
  The body of the outer \<open>map\<close>.  A recipe without a standard portion is returned as it is.
  Otherwise \<open>ratio = people / jizhun_renshu\<close>, the recipe is copied through JSON (the
  identity on catalog data), and when the copy has an ingredient list the scaled list is
  attached.  The seasoning list is not read.
\<close>

definition adjust_recipe :: "int \<Rightarrow> recipe \<Rightarrow> recipe" where
  "adjust_recipe n r =
     (case standard_servings r of
        None \<Rightarrow> r
      | Some sv \<Rightarrow>
          (let ratio = js_div (Fin (of_int n)) (to_num (base_people sv)) in
           case ingredient_list sv of
             None \<Rightarrow> r
           | Some ings \<Rightarrow> r\<lparr>adjusted_ingredients := Some (map (scale_ingredient ratio) ings)\<rparr>))"

definition adjustServings :: "menu \<Rightarrow> int \<Rightarrow> menu" where
  "adjustServings m n = map (\<lambda>(category, recipes). (category, map (adjust_recipe n) recipes)) m"


section \<open>Filtering\<close>

text \<open>The string \<open>bu xian\<close> ("no limit") switches a filter off.\<close>

definition no_limit :: jsstring where
  "no_limit = [0x4E0D, 0x9650]"

text \<open>
  The predicate passed to \<open>recipes.filter\<close> in \<open>filterRecipes\<close> (lines 472 to 497),
  test by test.  A
  property of the recipe that is absent is falsy, so its test is skipped; so is an empty
  difficulty string and a cooking time of \<open>0\<close>.  An array is truthy even when it is
  empty.  The block for the special needs (\<open>teshu xuqiu\<close>) has an empty body in the
  source ("simplified, passes for now") and rejects nothing; preparation time and tags are
  not read.
\<close>

definition recipe_passes :: "params \<Rightarrow> recipe \<Rightarrow> bool" where
  "recipe_passes p r =
     (if season p \<noteq> no_limit
         \<and> (case seasons r of None \<Rightarrow> False | Some ss \<Rightarrow> season p \<notin> set ss)
      then False
      else if difficulty_level p \<noteq> no_limit
         \<and> (case difficulty r of None \<Rightarrow> False | Some d \<Rightarrow> d \<noteq> [] \<and> d \<noteq> difficulty_level p)
      then False
      else if (case max_cook_time p of None \<Rightarrow> False
               | Some m \<Rightarrow> m \<noteq> 0
                   \<and> (case cook_time r of None \<Rightarrow> False | Some c \<Rightarrow> c \<noteq> 0 \<and> m < c))
      then False
      else True)"

definition filterRecipes :: "recipe list \<Rightarrow> params \<Rightarrow> recipe list" where
  "filterRecipes recipes p = filter (recipe_passes p) recipes"

text \<open>
  The first statements of \<open>recommend\<close> (lines 443 to 450): filter, and when fewer than 10 recipes are left
  filter the whole catalog again with the difficulty set to "no limit".
\<close>

definition eligible :: "recipe list \<Rightarrow> params \<Rightarrow> recipe list" where
  "eligible recipes p =
     (let filteredRecipes = filterRecipes recipes p in
      if length filteredRecipes < 10
      then filterRecipes recipes (p\<lparr>difficulty_level := no_limit\<rparr>)
      else filteredRecipes)"

section \<open>Selection by category\<close>

text \<open>
  The four menu categories: \<open>zhucai\<close> (main dish), \<open>peicai\<close> (side dish),
  \<open>tangpin\<close> (soup), \<open>zhushi\<close> (staple).
\<close>

definition cat_main :: jsstring where
  "cat_main = [0x4E3B, 0x83DC]"

definition cat_side :: jsstring where
  "cat_side = [0x914D, 0x83DC]"

definition cat_soup :: jsstring where
  "cat_soup = [0x6C64, 0x54C1]"

definition cat_staple :: jsstring where
  "cat_staple = [0x4E3B, 0x98DF]"

text \<open>\<open>r.caipin_fenlei && r.caipin_fenlei.includes(c)\<close>\<close>

definition in_category :: "jsstring \<Rightarrow> recipe \<Rightarrow> bool" where
  "in_category c r = (case categories r of None \<Rightarrow> False | Some cs \<Rightarrow> c \<in> set cs)"

text \<open>
  \<open>randomSelect\<close> (lines 529 to 532) sorts a copy of the list with the comparator
  \<open>() => 0.5 - Math.random()\<close> and keeps the first \<open>count\<close> elements (\<open>cnt\<close> below).  What the sort
  returns depends on the engine and on the ambient random numbers; the model takes the
  outcome of the shuffle as a parameter, a function from the list to its shuffled copy.
  A shuffle is valid when it returns a permutation of its argument.  \<open>recommend\<close> calls
  \<open>randomSelect\<close> up to four times; the shuffles are numbered by category, 0 to 3.
\<close>

type_synonym shuffle = "recipe list \<Rightarrow> recipe list"

definition valid_shuffle :: "shuffle \<Rightarrow> bool" where
  "valid_shuffle sh = (\<forall>xs. mset (sh xs) = mset xs)"

definition randomSelect :: "shuffle \<Rightarrow> recipe list \<Rightarrow> nat \<Rightarrow> recipe list" where
  "randomSelect sh recipes cnt =
     (let shuffled = sh recipes in take (min cnt (length shuffled)) shuffled)"

definition selectMainDishes :: "shuffle \<Rightarrow> recipe list \<Rightarrow> params \<Rightarrow> recipe list" where
  "selectMainDishes sh recipes p =
     (if length recipes = 0 then []
      else randomSelect sh recipes (if 8 \<le> people p then 2 else 1))"

definition selectSideDishes :: "shuffle \<Rightarrow> recipe list \<Rightarrow> params \<Rightarrow> recipe list" where
  "selectSideDishes sh recipes p =
     (if length recipes = 0 then []
      else randomSelect sh recipes
             (if people p \<le> 4 then 1 else if people p \<le> 8 then 2 else 3))"

definition selectSoups :: "shuffle \<Rightarrow> recipe list \<Rightarrow> params \<Rightarrow> recipe list" where
  "selectSoups sh recipes p = (if length recipes = 0 then [] else randomSelect sh recipes 1)"

definition selectStaples :: "shuffle \<Rightarrow> recipe list \<Rightarrow> params \<Rightarrow> recipe list" where
  "selectStaples sh recipes p = (if length recipes = 0 then [] else randomSelect sh recipes 1)"

text \<open>
  The rest of \<open>recommend\<close> (lines 452 to 469): the category buckets, the selection,
  and the adjustment of the servings.
\<close>

definition bucket :: "jsstring \<Rightarrow> recipe list \<Rightarrow> params \<Rightarrow> recipe list" where
  "bucket c recipes p = filter (in_category c) (eligible recipes p)"

definition selected :: "(nat \<Rightarrow> shuffle) \<Rightarrow> recipe list \<Rightarrow> params \<Rightarrow> menu" where
  "selected rnd recipes p =
     [(cat_main, selectMainDishes (rnd 0) (bucket cat_main recipes p) p),
      (cat_side, selectSideDishes (rnd 1) (bucket cat_side recipes p) p),
      (cat_soup, selectSoups (rnd 2) (bucket cat_soup recipes p) p),
      (cat_staple, selectStaples (rnd 3) (bucket cat_staple recipes p) p)]"

definition recommend :: "(nat \<Rightarrow> shuffle) \<Rightarrow> recipe list \<Rightarrow> params \<Rightarrow> menu" where
  "recommend rnd recipes p = adjustServings (selected rnd recipes p) (people p)"

text \<open>\<open>Object.values(menu).flat()\<close>\<close>

definition menu_recipes :: "menu \<Rightarrow> recipe list" where
  "menu_recipes m = concat (map snd m)"

text \<open>The target count of the specification's table, by category.\<close>

definition target_count :: "jsstring \<Rightarrow> int \<Rightarrow> nat" where
  "target_count c n =
     (if c = cat_main then (if 8 \<le> n then 2 else 1)
      else if c = cat_side then (if n \<le> 4 then 1 else if n \<le> 8 then 2 else 3)
      else 1)"

section \<open>Nutrition\<close>

text \<open>
  The object \<open>total\<close> of \<open>NutritionCalculator.calculate\<close> (lines 561 to 606;
  \<open>tot\<close> below),
  and with the same five properties the daily recommendation and the percentages.
\<close>

record nutrient_values =
  v_calories :: jsnum
  v_protein :: jsnum
  v_carbohydrate :: jsnum
  v_fat :: jsnum
  v_fibre :: jsnum

definition dailyRecommendation :: nutrient_values where
  "dailyRecommendation =
     \<lparr>v_calories = Fin 2000, v_protein = Fin 60, v_carbohydrate = Fin 300,
      v_fat = Fin 67, v_fibre = Fin 25\<rparr>"

text \<open>\<open>recipe.biaozhun_fenliang ? people / recipe.biaozhun_fenliang.jizhun_renshu : 1\<close>\<close>

definition portion_ratio :: "int \<Rightarrow> recipe \<Rightarrow> jsnum" where
  "portion_ratio n r =
     (case standard_servings r of
        None \<Rightarrow> Fin 1
      | Some sv \<Rightarrow> js_div (Fin (of_int n)) (to_num (base_people sv)))"

text \<open>The body of the \<open>forEach\<close> over the recipes of the menu.\<close>

definition add_nutrition :: "int \<Rightarrow> nutrient_values \<Rightarrow> recipe \<Rightarrow> nutrient_values" where
  "add_nutrition n tot r =
     (case nutrition r of
        None \<Rightarrow> tot
      | Some nu \<Rightarrow>
          (let ratio = portion_ratio n r in
           \<lparr>v_calories = js_add (v_calories tot) (js_mul (or_zero (calories nu)) ratio),
            v_protein = js_add (v_protein tot) (js_mul (or_zero (protein nu)) ratio),
            v_carbohydrate =
              js_add (v_carbohydrate tot) (js_mul (or_zero (carbohydrate nu)) ratio),
            v_fat = js_add (v_fat tot) (js_mul (or_zero (fat nu)) ratio),
            v_fibre = js_add (v_fibre tot) (js_mul (or_zero (fibre nu)) ratio)\<rparr>))"

definition nutrition_total :: "menu \<Rightarrow> int \<Rightarrow> nutrient_values" where
  "nutrition_total m n =
     foldl (add_nutrition n)
       \<lparr>v_calories = Fin 0, v_protein = Fin 0, v_carbohydrate = Fin 0, v_fat = Fin 0,
        v_fibre = Fin 0\<rparr>
       (menu_recipes m)"

text \<open>\<open>Math.round((value / dailyRecommendation[key]) * 100)\<close>\<close>

definition percentage :: "jsnum \<Rightarrow> jsnum \<Rightarrow> jsnum" where
  "percentage v reference = js_round (js_mul (js_div v reference) (Fin 100))"

definition percentages_of :: "nutrient_values \<Rightarrow> nutrient_values \<Rightarrow> nutrient_values" where
  "percentages_of tot reference =
     \<lparr>v_calories = percentage (v_calories tot) (v_calories reference),
      v_protein = percentage (v_protein tot) (v_protein reference),
      v_carbohydrate = percentage (v_carbohydrate tot) (v_carbohydrate reference),
      v_fat = percentage (v_fat tot) (v_fat reference),
      v_fibre = percentage (v_fibre tot) (v_fibre reference)\<rparr>"

text \<open>
  The labels of \<open>evaluateNutrition\<close>: \<open>pian di\<close> (low), \<open>pian gao\<close> (high),
  \<open>shizhong\<close> (adequate), \<open>chongzu\<close> (sufficient); and the verdicts
  \<open>yingyang buzu\<close> (nutritionally deficient), \<open>yingyang guosheng\<close> (nutritionally
  excessive), \<open>yingyang junheng\<close> (balanced), \<open>jiben junheng\<close> (partially balanced).
\<close>

definition label_low :: jsstring where
  "label_low = [0x504F, 0x4F4E]"

definition label_high :: jsstring where
  "label_high = [0x504F, 0x9AD8]"

definition label_adequate :: jsstring where
  "label_adequate = [0x9002, 0x4E2D]"

definition label_sufficient :: jsstring where
  "label_sufficient = [0x5145, 0x8DB3]"

definition verdict_deficient :: jsstring where
  "verdict_deficient = [0x8425, 0x517B, 0x4E0D, 0x8DB3]"

definition verdict_excessive :: jsstring where
  "verdict_excessive = [0x8425, 0x517B, 0x8FC7, 0x5269]"

definition verdict_balanced :: jsstring where
  "verdict_balanced = [0x8425, 0x517B, 0x5747, 0x8861]"

definition verdict_partially_balanced :: jsstring where
  "verdict_partially_balanced = [0x57FA, 0x672C, 0x5747, 0x8861]"

text \<open>
  The object \<open>scores\<close>: the labels of calories, protein and fat, and the overall
  verdict \<open>zongti\<close>.
\<close>

record evaluation =
  s_calories :: jsstring
  s_protein :: jsstring
  s_fat :: jsstring
  s_overall :: jsstring

text \<open>One band: \<open>if (ratio < lo) low; else if (ratio > hi) high; else middle\<close>.\<close>

definition band :: "jsnum \<Rightarrow> rat \<Rightarrow> rat \<Rightarrow> jsstring \<Rightarrow> jsstring" where
  "band ratio lo hi middle =
     (if js_lt ratio (Fin lo) then label_low
      else if js_gt ratio (Fin hi) then label_high
      else middle)"

text \<open>
  \<open>evaluateNutrition\<close> (lines 608 to 639).  The two counts run over the values of \<open>scores\<close> when it holds
  the three labels and not yet the verdict.
\<close>

definition evaluateNutrition :: "nutrient_values \<Rightarrow> nutrient_values \<Rightarrow> evaluation" where
  "evaluateNutrition tot recommendation =
     (let calorieRatio = js_div (v_calories tot) (v_calories recommendation);
          sc = band calorieRatio (7 / 10) (13 / 10) label_adequate;
          proteinRatio = js_div (v_protein tot) (v_protein recommendation);
          sp = band proteinRatio (8 / 10) (12 / 10) label_sufficient;
          fatRatio = js_div (v_fat tot) (v_fat recommendation);
          sf = band fatRatio (7 / 10) (13 / 10) label_adequate;
          lowCount = length (filter (\<lambda>s. s = label_low) [sc, sp, sf]);
          highCount = length (filter (\<lambda>s. s = label_high) [sc, sp, sf])
      in \<lparr>s_calories = sc, s_protein = sp, s_fat = sf,
          s_overall =
            (if 2 < lowCount then verdict_deficient
             else if 2 < highCount then verdict_excessive
             else if sp = label_sufficient \<and> sf = label_adequate then verdict_balanced
             else verdict_partially_balanced)\<rparr>)"

text \<open>
  The suggestion strings of \<open>getNutritionSuggestions\<close> (lines 641 to 663), in the order
  of the source:
  more staple or protein; less fat or staple; more meat, soy, eggs or milk; less fried or
  fatty food; the menu is balanced, keep it up.
\<close>

definition suggest_more_energy :: jsstring where
  "suggest_more_energy =
     [0x5EFA, 0x8BAE, 0x589E, 0x52A0, 0x4E3B, 0x98DF, 0x6216, 0x86CB, 0x767D, 0x8D28, 0x6444,
      0x5165]"

definition suggest_less_energy :: jsstring where
  "suggest_less_energy =
     [0x5EFA, 0x8BAE, 0x51CF, 0x5C11, 0x6CB9, 0x8102, 0x6216, 0x4E3B, 0x98DF, 0x6444, 0x5165]"

definition suggest_more_protein :: jsstring where
  "suggest_more_protein =
     [0x5EFA, 0x8BAE, 0x589E, 0x52A0, 0x8089, 0x7C7B, 0x3001, 0x8C46, 0x5236, 0x54C1, 0x6216,
      0x86CB, 0x5976, 0x6444, 0x5165]"

definition suggest_less_fat :: jsstring where
  "suggest_less_fat =
     [0x5EFA, 0x8BAE, 0x51CF, 0x5C11, 0x6CB9, 0x70B8, 0x6216, 0x9AD8, 0x8102, 0x80AA, 0x98DF,
      0x6750]"

definition suggest_keep :: jsstring where
  "suggest_keep =
     [0x5F53, 0x524D, 0x83DC, 0x5355, 0x8425, 0x517B, 0x5747, 0x8861, 0xFF0C, 0x7EE7, 0x7EED,
      0x4FDD, 0x6301]"

definition getNutritionSuggestions :: "evaluation \<Rightarrow> jsstring list" where
  "getNutritionSuggestions ev =
     (let s1 = (if s_calories ev = label_low then [suggest_more_energy]
                else if s_calories ev = label_high then [suggest_less_energy] else []);
          s2 = (if s_protein ev = label_low then [suggest_more_protein] else []);
          s3 = (if s_fat ev = label_high then [suggest_less_fat] else []);
          suggestions = s1 @ s2 @ s3
      in if length suggestions = 0 then [suggest_keep] else suggestions)"

text \<open>
  The result of \<open>calculate\<close>: totals \<open>zongliang\<close>, percentages \<open>baifenbi\<close>,
  evaluation \<open>pingjia\<close>, suggestions \<open>jianyi\<close>.
\<close>

record nutrition_summary =
  totals :: nutrient_values
  percentages :: nutrient_values
  assessment :: evaluation
  suggestions :: "jsstring list"

definition calculate :: "menu \<Rightarrow> int \<Rightarrow> nutrition_summary" where
  "calculate m n =
     (let tot = nutrition_total m n;
          evaluation = evaluateNutrition tot dailyRecommendation
      in \<lparr>totals = tot,
          percentages = percentages_of tot dailyRecommendation,
          assessment = evaluation,
          suggestions = getNutritionSuggestions evaluation\<rparr>)"

section \<open>Shopping list\<close>
















text \<open>The scaled ingredients of a recipe (none when the property is absent).\<close>

definition recipe_scaled :: "recipe \<Rightarrow> scaled_ingredient list" where
  "recipe_scaled r = (case adjusted_ingredients r of None \<Rightarrow> [] | Some ings \<Rightarrow> ings)"






















section \<open>The menu bundle\<close>



section \<open>What the specification asks of the filter\<close>

text \<open>
  The four predicates as the specification words them, for comparison with
  \<open>recipe_passes\<close>.  The difficulty levels are ordered \<open>chuji\<close> (beginner),
  \<open>zhongji\<close> (intermediate), \<open>gaoji\<close> (advanced); the ceiling is set when the
  requested difficulty is not "no limit"; the dietary exclusions are the special needs of
  the request.
\<close>

definition level_beginner :: jsstring where
  "level_beginner = [0x521D, 0x7EA7]"

definition level_intermediate :: jsstring where
  "level_intermediate = [0x4E2D, 0x7EA7]"

definition level_advanced :: jsstring where
  "level_advanced = [0x9AD8, 0x7EA7]"

definition difficulty_rank :: "jsstring \<Rightarrow> nat option" where
  "difficulty_rank d =
     (if d = level_beginner then Some 0
      else if d = level_intermediate then Some 1
      else if d = level_advanced then Some 2
      else None)"

definition minutes :: "rat option \<Rightarrow> rat" where
  "minutes t = (case t of None \<Rightarrow> 0 | Some x \<Rightarrow> x)"

definition spec_season_match :: "params \<Rightarrow> recipe \<Rightarrow> bool" where
  "spec_season_match p r =
     (season p = no_limit
      \<or> (case seasons r of None \<Rightarrow> True | Some ss \<Rightarrow> ss = [] \<or> season p \<in> set ss))"

definition spec_difficulty_ceiling :: "params \<Rightarrow> recipe \<Rightarrow> bool" where
  "spec_difficulty_ceiling p r =
     (difficulty_level p = no_limit
      \<or> (case difficulty r of
            None \<Rightarrow> True
          | Some d \<Rightarrow>
              (case (difficulty_rank d, difficulty_rank (difficulty_level p)) of
                 (Some a, Some b) \<Rightarrow> a \<le> b
               | _ \<Rightarrow> True)))"

definition spec_time_budget :: "params \<Rightarrow> recipe \<Rightarrow> bool" where
  "spec_time_budget p r =
     (case max_cook_time p of
        None \<Rightarrow> True
      | Some m \<Rightarrow> minutes (prep_time r) + minutes (cook_time r) \<le> m)"

definition spec_no_excluded_tag :: "params \<Rightarrow> recipe \<Rightarrow> bool" where
  "spec_no_excluded_tag p r =
     (case tags r of None \<Rightarrow> True | Some ts \<Rightarrow> list_all (\<lambda>t. t \<notin> set (special_needs p)) ts)"

definition spec_passes :: "params \<Rightarrow> recipe \<Rightarrow> bool" where
  "spec_passes p r =
     (spec_season_match p r \<and> spec_difficulty_ceiling p r \<and> spec_time_budget p r
      \<and> spec_no_excluded_tag p r)"

section \<open>Sample data\<close>

text \<open>
  The catalog of the specification's example scenario and a few more recipes, used to run
  the model on concrete inputs.  \<open>ke\<close> is the gram, \<open>zhurou\<close> pork, \<open>doufu\<close> tofu,
  \<open>yan\<close> salt, \<open>la\<close> "spicy", \<open>chunji\<close> spring.
\<close>

definition gram :: jsstring where
  "gram = [0x514B]"

definition pork :: jsstring where
  "pork = [0x732A, 0x8089]"

definition tofu :: jsstring where
  "tofu = [0x8C46, 0x8150]"

definition salt :: jsstring where
  "salt = [0x76D0]"

definition spicy :: jsstring where
  "spicy = [0x8FA3]"

definition spring :: jsstring where
  "spring = [0x6625, 0x5B63]"

definition blank_recipe :: recipe where
  "blank_recipe =
     \<lparr>recipe_id = [], dish_name = [], categories = None, seasons = None, difficulty = None,
      prep_time = None, cook_time = None, standard_servings = None, nutrition = None,
      tags = None, adjusted_ingredients = None\<rparr>"

definition no_nutrients :: nutrients where
  "no_nutrients =
     \<lparr>calories = None, protein = None, carbohydrate = None, fat = None, fibre = None\<rparr>"

text \<open>A main dish for 6: 300 g of pork, seasoned with 5 g of salt, 800 kcal.\<close>

definition pork_dish :: recipe where
  "pork_dish = blank_recipe
     \<lparr>recipe_id := [0x52, 0x31], categories := Some [cat_main],
      standard_servings := Some
        \<lparr>base_people = Some 6,
         ingredient_list =
           Some [\<lparr>ing_name = pork, quantity = Some 300, ing_unit = Some gram\<rparr>],
         seasonings =
           Some [\<lparr>sea_name = salt, sea_quantity = Some 5, sea_unit = Some gram\<rparr>]\<rparr>,
      nutrition := Some (no_nutrients\<lparr>calories := Some 800\<rparr>)\<rparr>"

text \<open>A soup for 4: 200 g of tofu, 150 kcal.\<close>

definition tofu_soup :: recipe where
  "tofu_soup = blank_recipe
     \<lparr>recipe_id := [0x52, 0x32], categories := Some [cat_soup],
      standard_servings := Some
        \<lparr>base_people = Some 4,
         ingredient_list =
           Some [\<lparr>ing_name = tofu, quantity = Some 200, ing_unit = Some gram\<rparr>],
         seasonings = None\<rparr>,
      nutrition := Some (no_nutrients\<lparr>calories := Some 150\<rparr>)\<rparr>"

text \<open>The same main dish with a base number of people of zero.\<close>

definition zero_base_dish :: recipe where
  "zero_base_dish = blank_recipe
     \<lparr>recipe_id := [0x52, 0x30], categories := Some [cat_main],
      standard_servings := Some
        \<lparr>base_people = Some 0,
         ingredient_list =
           Some [\<lparr>ing_name = pork, quantity = Some 300, ing_unit = Some gram\<rparr>],
         seasonings = None\<rparr>\<rparr>"

text \<open>
  Four recipes on which the filter and the specification disagree: 100 minutes of
  preparation and 30 of cooking; a beginner's recipe; a recipe tagged "spicy"; a recipe
  with an empty list of seasons.
\<close>

definition slow_dish :: recipe where
  "slow_dish = blank_recipe
     \<lparr>recipe_id := [0x52, 0x33], prep_time := Some 100, cook_time := Some 30\<rparr>"

definition easy_dish :: recipe where
  "easy_dish = blank_recipe\<lparr>recipe_id := [0x52, 0x34], difficulty := Some level_beginner\<rparr>"

definition spicy_dish :: recipe where
  "spicy_dish = blank_recipe\<lparr>recipe_id := [0x52, 0x35], tags := Some [spicy]\<rparr>"

definition seasonless_dish :: recipe where
  "seasonless_dish = blank_recipe\<lparr>recipe_id := [0x52, 0x41], seasons := Some []\<rparr>"

text \<open>A party of 6, any season, at most 120 minutes, any difficulty.\<close>

definition request :: params where
  "request =
     \<lparr>people = 6, season = no_limit, taste = [], special_needs = [],
      max_cook_time = Some 120, difficulty_level = no_limit\<rparr>"

text \<open>The same in spring, with an intermediate difficulty and "spicy" excluded.\<close>

definition strict_request :: params where
  "strict_request =
     request\<lparr>season := spring, special_needs := [spicy],
       difficulty_level := level_intermediate\<rparr>"

text \<open>Two shuffles: one keeps the order of the list, one reverses it.\<close>

definition keep_order :: "nat \<Rightarrow> shuffle" where
  "keep_order i xs = xs"



text \<open>An advanced recipe, and the request of a beginner.\<close>

definition hard_dish :: recipe where
  "hard_dish = blank_recipe\<lparr>recipe_id := [0x52, 0x36], difficulty := Some level_advanced\<rparr>"

definition beginner_request :: params where
  "beginner_request = request\<lparr>difficulty_level := level_beginner\<rparr>"






section \<open>Auxiliary notions for the shopping list\<close>



section \<open>Serving adjustment: the scaling law\<close>



lemma adjust_recipe_scaled:
  "standard_servings r = Some sv \<Longrightarrow> ingredient_list sv = Some ings \<Longrightarrow>
   adjusted_ingredients (adjust_recipe n r)
     = Some (map (scale_ingredient (js_div (Fin (of_int n)) (to_num (base_people sv)))) ings)"
  by (simp add: adjust_recipe_def)


lemma adjust_recipe_categories: "categories (adjust_recipe n r) = categories r"
  by (simp add: adjust_recipe_def split: option.splits)




section \<open>Filtering: the contract and the relaxation\<close>

text \<open>
  C4 (as amended).  \<open>filterRecipes\<close> returns, in catalog order, exactly the recipes that
  pass three tests.  Season: the request says "no limit", or the recipe has no seasons
  property, or its seasons contain the requested one.  Difficulty: the request says
  "no limit", or the recipe has no difficulty (or an empty one), or its difficulty equals
  the requested one.  Cooking time: the request has no limit (or a limit of 0), or the
  recipe has no cooking time (or one of 0), or its cooking time is at most the limit.
  Preparation time, tags and the special needs of the request are not consulted.
\<close>

theorem filter_contract:
  "filterRecipes recipes p =
     filter (\<lambda>r.
         (season p = no_limit \<or> seasons r = None
            \<or> (\<exists>ss. seasons r = Some ss \<and> season p \<in> set ss))
       \<and> (difficulty_level p = no_limit \<or> difficulty r = None \<or> difficulty r = Some []
            \<or> difficulty r = Some (difficulty_level p))
       \<and> (max_cook_time p = None \<or> max_cook_time p = Some 0 \<or> cook_time r = None
            \<or> cook_time r = Some 0
            \<or> (\<exists>m c. max_cook_time p = Some m \<and> cook_time r = Some c \<and> c \<le> m)))
       recipes"
  unfolding filterRecipes_def
  by (rule filter_cong [OF refl]) (auto simp: recipe_passes_def split: option.splits)

text \<open>
  C4 as stated fails.  In spring, with an intermediate difficulty, a limit of 120 minutes
  and "spicy" excluded, the filter keeps the dish of 100 + 30 minutes (only the 30 minutes
  of cooking count) and the dish tagged "spicy" (tags are not read), and drops the
  beginner's dish (the difficulty must be equal) and the dish with an empty list of
  seasons (the list does not contain spring); the four predicates of the claim keep
  exactly the other two.
\<close>

theorem filter_contract_counterexample:
  "filterRecipes [slow_dish, easy_dish, spicy_dish, seasonless_dish] strict_request
     = [slow_dish, spicy_dish]
   \<and> filter (spec_passes strict_request) [slow_dish, easy_dish, spicy_dish, seasonless_dish]
     = [easy_dish, seasonless_dish]"
  by code_simp

lemma relaxed_pass:
  "filterRecipes recipes (p\<lparr>difficulty_level := no_limit\<rparr>) =
     filter (\<lambda>r.
         (season p = no_limit \<or> seasons r = None
            \<or> (\<exists>ss. seasons r = Some ss \<and> season p \<in> set ss))
       \<and> (max_cook_time p = None \<or> max_cook_time p = Some 0 \<or> cook_time r = None
            \<or> cook_time r = Some 0
            \<or> (\<exists>m c. max_cook_time p = Some m \<and> cook_time r = Some c \<and> c \<le> m)))
       recipes"
  unfolding filterRecipes_def
  by (rule filter_cong [OF refl]) (auto simp: recipe_passes_def split: option.splits)

text \<open>
  C3.  When the strict pass leaves fewer than 10 recipes the eligible recipes are those of
  a second pass over the whole catalog with the difficulty set to "no limit", whatever
  their number; otherwise they are those of the strict pass.  The second pass is the
  filter without its difficulty test: it keeps the recipes that pass the season test and
  the cooking time test.  The category buckets are filled from the eligible recipes.
\<close>

theorem relaxation_rule:
  "eligible recipes p =
     (if length (filterRecipes recipes p) < 10
      then filterRecipes recipes (p\<lparr>difficulty_level := no_limit\<rparr>)
      else filterRecipes recipes p)
   \<and> filterRecipes recipes (p\<lparr>difficulty_level := no_limit\<rparr>) =
       filter (\<lambda>r.
           (season p = no_limit \<or> seasons r = None
              \<or> (\<exists>ss. seasons r = Some ss \<and> season p \<in> set ss))
         \<and> (max_cook_time p = None \<or> max_cook_time p = Some 0 \<or> cook_time r = None
              \<or> cook_time r = Some 0
              \<or> (\<exists>m c. max_cook_time p = Some m \<and> cook_time r = Some c \<and> c \<le> m)))
         recipes
   \<and> bucket c recipes p = filter (in_category c) (eligible recipes p)"
proof -
  have "eligible recipes p = filterRecipes recipes (p\<lparr>difficulty_level := no_limit\<rparr>)"
    if "length (filterRecipes recipes p) < 10"
    using that by (simp add: eligible_def Let_def)
  moreover have "eligible recipes p = filterRecipes recipes p"
    if "\<not> length (filterRecipes recipes p) < 10"
    using that by (simp add: eligible_def Let_def)
  moreover have "bucket c recipes p = filter (in_category c) (eligible recipes p)"
    by (simp add: bucket_def)
  ultimately show ?thesis
    using relaxed_pass [of recipes p] by (simp only: if_split) blast
qed

text \<open>
  Nine beginner's recipes and an advanced one, for a beginner: the strict pass leaves 9, so
  the relaxed pass is used and returns all 10.  With ten beginner's recipes the strict pass
  leaves 10 and is used: the advanced recipe stays out.
\<close>

theorem relaxation_rule_witness:
  "eligible (replicate 9 easy_dish @ [hard_dish]) beginner_request
     = replicate 9 easy_dish @ [hard_dish]
   \<and> eligible (replicate 10 easy_dish @ [hard_dish]) beginner_request = replicate 10 easy_dish"
proof -
  have a: "length (filterRecipes (replicate 9 easy_dish @ [hard_dish]) beginner_request) = 9"
    by code_simp
  have b: "filterRecipes (replicate 9 easy_dish @ [hard_dish])
             (beginner_request\<lparr>difficulty_level := no_limit\<rparr>)
           = replicate 9 easy_dish @ [hard_dish]"
    by code_simp
  have c: "filterRecipes (replicate 10 easy_dish @ [hard_dish]) beginner_request
           = replicate 10 easy_dish"
    by code_simp
  have d: "length (replicate 10 easy_dish) = 10" by simp
  from relaxation_rule [of "replicate 9 easy_dish @ [hard_dish]" beginner_request, THEN conjunct1]
       relaxation_rule [of "replicate 10 easy_dish @ [hard_dish]" beginner_request, THEN conjunct1]
       a b c d
  show ?thesis by simp
qed

section \<open>Serving adjustment: a base number of people that is missing or zero\<close>

text \<open>
  C5 as stated fails: there is no error and no exclusion.  The only recipe of the catalog
  has a base number of people of 0; it is selected as the main dish and returned, with a
  scaled quantity of pork of \<open>Infinity\<close>.
\<close>

theorem zero_base_counterexample:
  "recommend keep_order [zero_base_dish] request =
     [(cat_main,
       [zero_base_dish\<lparr>adjusted_ingredients :=
          Some [\<lparr>ing_name = pork, quantity = Some 300, ing_unit = Some gram,
                 adjusted_quantity = PInf\<rparr>]\<rparr>]),
      (cat_side, []), (cat_soup, []), (cat_staple, [])]"
  by code_simp

lemma ratio_not_finite:
  "b = None \<or> b = Some 0 \<Longrightarrow> \<not> is_finite (js_div (Fin x) (to_num b))"
  by (auto simp: is_finite_def js_inf_def split: if_splits)

lemma mul_not_finite: "\<not> is_finite y \<Longrightarrow> \<not> is_finite (js_mul x y)"
  by (cases x; cases y) (auto simp: is_finite_def js_inf_def)

lemma mul_not_finite_left: "\<not> is_finite x \<Longrightarrow> \<not> is_finite (js_mul x (Fin 10))"
  by (cases x) (auto simp: is_finite_def js_inf_def)

lemma round_not_finite: "\<not> is_finite x \<Longrightarrow> \<not> is_finite (js_round x)"
  by (cases x) (auto simp: is_finite_def)

lemma div_not_finite: "\<not> is_finite x \<Longrightarrow> \<not> is_finite (js_div x (Fin 10))"
  by (cases x) (auto simp: is_finite_def js_inf_def)

lemma scale_not_finite:
  "\<not> is_finite ratio \<Longrightarrow> \<not> is_finite (adjusted_quantity (scale_ingredient ratio ing))"
  by (simp add: scale_ingredient_def mul_not_finite mul_not_finite_left round_not_finite
        div_not_finite)

lemma passes_ignores_servings:
  "recipe_passes p (r\<lparr>standard_servings := s\<rparr>) = recipe_passes p r"
  by (simp add: recipe_passes_def cong: option.case_cong)

lemma in_category_adjust: "in_category c (adjust_recipe n r) = in_category c r"
  by (simp add: in_category_def adjust_recipe_categories)

text \<open>
  C5 (as amended).  For a recipe whose base number of people is missing or zero, scaling
  raises no error and the recipe is not excluded: the filter and the category test do not
  read the standard portion, and the copy returned carries one scaled entry per ingredient,
  each with a scaled quantity that is not finite (NaN or an infinity).
\<close>

theorem zero_base_scaled_without_error:
  assumes "standard_servings r = Some sv"
    and "base_people sv = None \<or> base_people sv = Some 0"
    and "ingredient_list sv = Some ings"
  shows "recipe_passes p (r\<lparr>standard_servings := s\<rparr>) = recipe_passes p r
       \<and> in_category c (r\<lparr>standard_servings := s\<rparr>) = in_category c r
       \<and> length (recipe_scaled (adjust_recipe n r)) = length ings
       \<and> (\<forall>e \<in> set (recipe_scaled (adjust_recipe n r)). \<not> is_finite (adjusted_quantity e))"
proof -
  let ?ratio = "js_div (Fin (of_int n)) (to_num (base_people sv))"
  have nf: "\<not> is_finite ?ratio" using assms(2) by (rule ratio_not_finite)
  have eq: "recipe_scaled (adjust_recipe n r) = map (scale_ingredient ?ratio) ings"
    using adjust_recipe_scaled [OF assms(1) assms(3), of n] by (simp add: recipe_scaled_def)
  show ?thesis
    using nf by (simp add: eq passes_ignores_servings in_category_def scale_not_finite)
qed

theorem zero_base_scaled_witness:
  "length (recipe_scaled (adjust_recipe 6 zero_base_dish)) = 1
   \<and> \<not> is_finite (adjusted_quantity (recipe_scaled (adjust_recipe 6 zero_base_dish) ! 0))"
proof -
  let ?ings = "[\<lparr>ing_name = pork, quantity = Some 300, ing_unit = Some gram\<rparr>]"
  let ?sv = "\<lparr>base_people = Some 0, ingredient_list = Some ?ings, seasonings = None\<rparr>"
  have h1: "standard_servings zero_base_dish = Some ?sv"
    by (simp add: zero_base_dish_def blank_recipe_def)
  have h2: "base_people ?sv = None \<or> base_people ?sv = Some 0" by simp
  have h3: "ingredient_list ?sv = Some ?ings" by simp
  from zero_base_scaled_without_error [OF h1 h2 h3, of request None cat_main 6]
  have l: "length (recipe_scaled (adjust_recipe 6 zero_base_dish)) = 1"
    and f: "\<forall>e \<in> set (recipe_scaled (adjust_recipe 6 zero_base_dish)).
              \<not> is_finite (adjusted_quantity e)"
    by simp_all
  from l have "recipe_scaled (adjust_recipe 6 zero_base_dish) ! 0
                 \<in> set (recipe_scaled (adjust_recipe 6 zero_base_dish))"
    by simp
  with f l show ?thesis by blast
qed

section \<open>Selection: the bound and the shape of the menu\<close>

lemma category_names_distinct: "distinct [cat_main, cat_side, cat_soup, cat_staple]"
  by (simp add: cat_main_def cat_side_def cat_soup_def cat_staple_def)

lemma category_names_differ:
  "cat_main \<noteq> cat_side" "cat_main \<noteq> cat_soup" "cat_main \<noteq> cat_staple"
  "cat_side \<noteq> cat_main" "cat_side \<noteq> cat_soup" "cat_side \<noteq> cat_staple"
  "cat_soup \<noteq> cat_main" "cat_soup \<noteq> cat_side" "cat_soup \<noteq> cat_staple"
  "cat_staple \<noteq> cat_main" "cat_staple \<noteq> cat_side" "cat_staple \<noteq> cat_soup"
  by (simp_all add: cat_main_def cat_side_def cat_soup_def cat_staple_def)

lemma valid_shuffle_length: "valid_shuffle sh \<Longrightarrow> length (sh xs) = length xs"
  unfolding valid_shuffle_def by (metis size_mset)

lemma valid_shuffle_distinct: "valid_shuffle sh \<Longrightarrow> distinct xs \<Longrightarrow> distinct (sh xs)"
  unfolding valid_shuffle_def by (metis distinct_count_atmost_1 count_mset_0_iff mset_eq_imp_distinct_iff)

lemma mset_take_subset: "mset (take k ys) \<subseteq># mset ys"
proof -
  have "mset ys = mset (take k ys) + mset (drop k ys)"
    by (metis append_take_drop_id mset_append)
  then show ?thesis by simp
qed

lemma randomSelect_length:
  "valid_shuffle sh \<Longrightarrow> length (randomSelect sh xs k) = min (length xs) k"
  by (simp add: randomSelect_def Let_def valid_shuffle_length min.commute)

lemma randomSelect_mset:
  "valid_shuffle sh \<Longrightarrow> mset (randomSelect sh xs k) \<subseteq># mset xs"
  unfolding randomSelect_def Let_def valid_shuffle_def
  by (metis mset_take_subset)

lemma randomSelect_distinct:
  "valid_shuffle sh \<Longrightarrow> distinct xs \<Longrightarrow> distinct (randomSelect sh xs k)"
  by (simp add: randomSelect_def Let_def valid_shuffle_distinct)

lemma randomSelect_set:
  "valid_shuffle sh \<Longrightarrow> set (randomSelect sh xs k) \<subseteq> set xs"
  using randomSelect_mset [of sh xs k] by (metis set_mset_mono set_mset_mset)

lemma selectMain_props:
  assumes "valid_shuffle sh"
  shows "length (selectMainDishes sh xs p) = min (length xs) (target_count cat_main (people p))"
    and "mset (selectMainDishes sh xs p) \<subseteq># mset xs"
    and "distinct xs \<Longrightarrow> distinct (selectMainDishes sh xs p)"
  using assms
  by (auto simp: selectMainDishes_def target_count_def randomSelect_length randomSelect_mset
        randomSelect_distinct)

lemma selectSide_props:
  assumes "valid_shuffle sh"
  shows "length (selectSideDishes sh xs p) = min (length xs) (target_count cat_side (people p))"
    and "mset (selectSideDishes sh xs p) \<subseteq># mset xs"
    and "distinct xs \<Longrightarrow> distinct (selectSideDishes sh xs p)"
  using assms
  by (auto simp: category_names_differ selectSideDishes_def target_count_def randomSelect_length randomSelect_mset
        randomSelect_distinct)

lemma selectSoups_props:
  assumes "valid_shuffle sh"
  shows "length (selectSoups sh xs p) = min (length xs) (target_count cat_soup (people p))"
    and "mset (selectSoups sh xs p) \<subseteq># mset xs"
    and "distinct xs \<Longrightarrow> distinct (selectSoups sh xs p)"
  using assms
  by (auto simp: category_names_differ selectSoups_def target_count_def randomSelect_length randomSelect_mset
        randomSelect_distinct)

lemma selectStaples_props:
  assumes "valid_shuffle sh"
  shows "length (selectStaples sh xs p) = min (length xs) (target_count cat_staple (people p))"
    and "mset (selectStaples sh xs p) \<subseteq># mset xs"
    and "distinct xs \<Longrightarrow> distinct (selectStaples sh xs p)"
  using assms
  by (auto simp: category_names_differ selectStaples_def target_count_def randomSelect_length randomSelect_mset
        randomSelect_distinct)

lemma map_of_adjustServings:
  "map_of (adjustServings m n) c = map_option (map (adjust_recipe n)) (map_of m c)"
  by (induction m) (auto simp: adjustServings_def)

text \<open>
  C6.  Whatever the (valid) shuffles, for each of the four categories the menu has an
  entry, and the number of recipes selected is the minimum of the size of the category's
  bucket and the target count of the table (main: 2 for 8 diners or more, else 1; side: 1
  up to 4 diners, 2 for 5 to 8, 3 above; soup 1; staple 1).  The selection is drawn from
  the bucket without replacement (it is a sub-multiset of the bucket), so it has no
  repetition when the bucket has none.  \<open>recommend\<close> returns the selection with the
  servings adjusted, recipe by recipe.
\<close>

theorem selection_bound:
  assumes "\<forall>i. valid_shuffle (rnd i)"
    and "c \<in> {cat_main, cat_side, cat_soup, cat_staple}"
  shows "\<exists>sel. map_of (selected rnd recipes p) c = Some sel
           \<and> length sel = min (length (bucket c recipes p)) (target_count c (people p))
           \<and> mset sel \<subseteq># mset (bucket c recipes p)
           \<and> (distinct (bucket c recipes p) \<longrightarrow> distinct sel)
           \<and> map_of (recommend rnd recipes p) c = Some (map (adjust_recipe (people p)) sel)"
proof -
  from assms(1) have v: "valid_shuffle (rnd 0)" "valid_shuffle (rnd 1)" "valid_shuffle (rnd 2)"
    "valid_shuffle (rnd 3)" by simp_all
  from assms(2) consider "c = cat_main" | "c = cat_side" | "c = cat_soup" | "c = cat_staple"
    by auto
  then show ?thesis
  proof cases
    case 1
    then show ?thesis using selectMain_props [OF v(1)]
      by (simp add: recommend_def map_of_adjustServings selected_def category_names_differ)
  next
    case 2
    then show ?thesis using selectSide_props [OF v(2)]
      by (simp add: recommend_def map_of_adjustServings selected_def category_names_differ)
  next
    case 3
    then show ?thesis using selectSoups_props [OF v(3)]
      by (simp add: recommend_def map_of_adjustServings selected_def category_names_differ)
  next
    case 4
    then show ?thesis using selectStaples_props [OF v(4)]
      by (simp add: recommend_def map_of_adjustServings selected_def category_names_differ)
  qed
qed


text \<open>The example catalog: one main dish in the bucket, one selected.\<close>

theorem selection_bound_witness:
  "\<exists>sel. map_of (selected keep_order [pork_dish, tofu_soup] request) cat_main = Some sel
      \<and> length sel = 1
      \<and> map_of (recommend keep_order [pork_dish, tofu_soup] request) cat_main
          = Some (map (adjust_recipe 6) sel)"
proof -
  have h1: "\<forall>i. valid_shuffle (keep_order i)"
    by (simp add: valid_shuffle_def keep_order_def)
  have h2: "cat_main \<in> {cat_main, cat_side, cat_soup, cat_staple}" by simp
  have b: "length (bucket cat_main [pork_dish, tofu_soup] request) = 1" by code_simp
  have t: "target_count cat_main (people request) = 1" by code_simp
  have n: "people request = 6" by code_simp
  from selection_bound [OF h1 h2, of "[pork_dish, tofu_soup]" request] b t n
  show ?thesis by auto
qed

lemma recommend_keys:
  "map fst (recommend rnd recipes p) = [cat_main, cat_side, cat_soup, cat_staple]"
  by (simp add: recommend_def adjustServings_def selected_def)

lemma bucket_in_category: "r \<in> set (bucket c recipes p) \<Longrightarrow> in_category c r"
  by (simp add: bucket_def)

lemma select_subset:
  assumes "valid_shuffle sh"
  shows "set (selectMainDishes sh xs p) \<subseteq> set xs"
    and "set (selectSideDishes sh xs p) \<subseteq> set xs"
    and "set (selectSoups sh xs p) \<subseteq> set xs"
    and "set (selectStaples sh xs p) \<subseteq> set xs"
  using randomSelect_set [OF assms]
  by (auto simp: selectMainDishes_def selectSideDishes_def selectSoups_def selectStaples_def)

lemma select_in_category:
  assumes "valid_shuffle sh"
  shows "\<forall>r \<in> set (selectMainDishes sh (bucket c recipes p) p). in_category c r"
    and "\<forall>r \<in> set (selectSideDishes sh (bucket c recipes p) p). in_category c r"
    and "\<forall>r \<in> set (selectSoups sh (bucket c recipes p) p). in_category c r"
    and "\<forall>r \<in> set (selectStaples sh (bucket c recipes p) p). in_category c r"
  using select_subset [OF assms, of "bucket c recipes p" p] bucket_in_category [of _ c recipes p]
  by blast+

text \<open>
  C10.  The menu returned by \<open>recommend\<close> has exactly the four keys main, side, soup,
  staple, in this order and each once, every key with a (possibly empty) list, and every
  recipe listed under a key carries that category in its categories.
\<close>

theorem menu_shape:
  assumes "\<forall>i. valid_shuffle (rnd i)"
  shows "map fst (recommend rnd recipes p) = [cat_main, cat_side, cat_soup, cat_staple]
       \<and> distinct (map fst (recommend rnd recipes p))
       \<and> (\<forall>(c, rs) \<in> set (recommend rnd recipes p). \<forall>r \<in> set rs. in_category c r)"
proof -
  from assms have v: "valid_shuffle (rnd 0)" "valid_shuffle (rnd 1)" "valid_shuffle (rnd 2)"
    "valid_shuffle (rnd 3)" by simp_all
  have "\<forall>(c, rs) \<in> set (selected rnd recipes p). \<forall>r \<in> set rs. in_category c r"
    using select_in_category(1) [OF v(1)] select_in_category(2) [OF v(2)]
      select_in_category(3) [OF v(3)] select_in_category(4) [OF v(4)]
    by (simp add: selected_def)
  then have "\<forall>(c, rs) \<in> set (recommend rnd recipes p). \<forall>r \<in> set rs. in_category c r"
    by (fastforce simp: recommend_def adjustServings_def in_category_adjust)
  then show ?thesis
    using category_names_distinct by (simp add: recommend_keys)
qed

text \<open>The example catalog again.\<close>

theorem menu_shape_witness:
  "map fst (recommend keep_order [pork_dish, tofu_soup] request)
     = [cat_main, cat_side, cat_soup, cat_staple]
   \<and> list_all (\<lambda>(c, rs). list_all (in_category c) rs)
       (recommend keep_order [pork_dish, tofu_soup] request)"
proof -
  have h1: "\<forall>i. valid_shuffle (keep_order i)"
    by (simp add: valid_shuffle_def keep_order_def)
  from menu_shape [OF h1, of "[pork_dish, tofu_soup]" request]
  show ?thesis by (auto simp: list_all_iff)
qed

section \<open>Nutrition: percentages and classification\<close>






text \<open>The example menu is low on all three, hence deficient.\<close>

lemma classification_example:
  "assessment (calculate (recommend keep_order [pork_dish, tofu_soup] request) 6)
     = \<lparr>s_calories = label_low, s_protein = label_low, s_fat = label_low,
        s_overall = verdict_deficient\<rparr>"
  by code_simp

section \<open>Determinism\<close>





section \<open>Shopping list: the item count and the merged quantities\<close>





























end
